theory Spec2Isabelle
  imports Complex_Main "HOL-Library.Multiset"
begin

section \<open>JavaScript numbers\<close>

text \<open>
  A JavaScript \<open>number\<close> is an IEEE 754 binary64 value. The finite non-zero values and
  \<open>+0\<close> are \<open>Fin q\<close>, with \<open>q\<close> the rational the double stands for; \<open>-0\<close>, the two
  infinities and NaN are constructors of their own. Every double is such a value; the
  doubles among the \<open>Fin q\<close> are the fixed points of rounding (\<open>is_double\<close> below).
\<close>

datatype jsnum = Fin rat | NegZero | PosInf | NegInf | NaN

fun val :: "jsnum \<Rightarrow> rat" where
  "val (Fin q) = q"
| "val _ = 0"

fun isFinite :: "jsnum \<Rightarrow> bool" where
  "isFinite (Fin q) = True"
| "isFinite NegZero = True"
| "isFinite _ = False"

fun is_neg :: "jsnum \<Rightarrow> bool" where
  "is_neg (Fin q) = (q < 0)"
| "is_neg NegZero = True"
| "is_neg PosInf = False"
| "is_neg NegInf = True"
| "is_neg NaN = False"

fun is_zero :: "jsnum \<Rightarrow> bool" where
  "is_zero (Fin q) = (q = 0)"
| "is_zero NegZero = True"
| "is_zero _ = False"

fun is_inf :: "jsnum \<Rightarrow> bool" where
  "is_inf PosInf = True"
| "is_inf NegInf = True"
| "is_inf _ = False"

text \<open>The relational operators \<open>a > b\<close> and \<open>a <= b\<close>: false as soon as one side is NaN.\<close>

fun js_gt :: "jsnum \<Rightarrow> jsnum \<Rightarrow> bool" where
  "js_gt NaN b = False"
| "js_gt a NaN = False"
| "js_gt a PosInf = False"
| "js_gt NegInf b = False"
| "js_gt PosInf b = True"
| "js_gt a NegInf = True"
| "js_gt a b = (val a > val b)"


text \<open>Truthiness of a number, as \<open>!x\<close> and \<open>x || y\<close> read it: zero and NaN are falsy.\<close>

definition truthy :: "jsnum \<Rightarrow> bool" where
  "truthy n = (n \<noteq> NaN \<and> \<not> is_zero n)"

subsection \<open>Rounding to nearest, ties to even\<close>

definition pow2 :: "int \<Rightarrow> rat" where
  "pow2 e = (if 0 \<le> e then 2 ^ nat e else 1 / 2 ^ nat (- e))"

text \<open>\<open>ilog2 a\<close> is the binary exponent of \<open>a > 0\<close>: \<open>2 ^ ilog2 a \<le> a < 2 ^ (ilog2 a + 1)\<close>.\<close>

function log2_up :: "rat \<Rightarrow> nat" where
  "log2_up a = (if 2 \<le> a then Suc (log2_up (a / 2)) else 0)"
  by pat_completeness auto
termination
proof (relation "measure (\<lambda>a. nat \<lfloor>a\<rfloor>)")
  fix a :: rat
  assume "2 \<le> a"
  then have "\<lfloor>a / 2\<rfloor> < \<lfloor>a\<rfloor>" and "0 < \<lfloor>a\<rfloor>" by linarith+
  then show "(a / 2, a) \<in> measure (\<lambda>a. nat \<lfloor>a\<rfloor>)" by simp
qed simp

function log2_down :: "rat \<Rightarrow> nat" where
  "log2_down a = (if 0 < a \<and> a < 1 then Suc (log2_down (a * 2)) else 0)"
  by pat_completeness auto
termination
proof (relation "measure (\<lambda>a. nat \<lceil>1 / a\<rceil>)")
  fix a :: rat
  assume a: "0 < a \<and> a < 1"
  then have "1 < 1 / a" by simp
  then have two: "2 \<le> \<lceil>1 / a\<rceil>" by linarith
  moreover have "1 / (a * 2) = (1 / a) / 2" by simp
  ultimately have "\<lceil>1 / (a * 2)\<rceil> < \<lceil>1 / a\<rceil>" by linarith
  moreover from two have "0 < \<lceil>1 / a\<rceil>" by linarith
  ultimately show "(a * 2, a) \<in> measure (\<lambda>a. nat \<lceil>1 / a\<rceil>)" by simp
qed simp

declare log2_up.simps [simp del] log2_down.simps [simp del]

definition ilog2 :: "rat \<Rightarrow> int" where
  "ilog2 a = (if 1 \<le> a then int (log2_up a) else - int (log2_down a))"

definition round_half_even :: "rat \<Rightarrow> int" where
  "round_half_even s =
     (let f = \<lfloor>s\<rfloor>; r = s - of_int f
      in if r < 1 / 2 then f
         else if 1 / 2 < r then f + 1
         else if even f then f else f + 1)"

text \<open>
  The unit in the last place of a binary64 value of magnitude \<open>a\<close> is \<open>2 ^ (ilog2 a - 52)\<close>,
  and never below \<open>2 ^ - 1074\<close> (the subnormal range).
\<close>

definition ulp_exponent :: "rat \<Rightarrow> int" where
  "ulp_exponent a = max (ilog2 a - 52) (- 1074)"

definition round_magnitude :: "rat \<Rightarrow> rat" where
  "round_magnitude a =
     of_int (round_half_even (a / pow2 (ulp_exponent a))) * pow2 (ulp_exponent a)"

text \<open>
  \<open>to_double z x\<close> is the double nearest to the exact result \<open>x\<close> of an operation; \<open>z\<close> is the
  sign of an exact zero. Magnitudes that round to \<open>2 ^ 1024\<close> or more overflow to an
  infinity.
\<close>

definition to_double :: "bool \<Rightarrow> rat \<Rightarrow> jsnum" where
  "to_double negative_zero x =
     (if x = 0 then (if negative_zero then NegZero else Fin 0)
      else if pow2 1024 \<le> round_magnitude \<bar>x\<bar> then (if x < 0 then NegInf else PosInf)
      else if round_magnitude \<bar>x\<bar> = 0 then (if x < 0 then NegZero else Fin 0)
      else Fin (if x < 0 then - round_magnitude \<bar>x\<bar> else round_magnitude \<bar>x\<bar>))"

definition is_double :: "jsnum \<Rightarrow> bool" where
  "is_double x = (case x of Fin q \<Rightarrow> to_double False q = Fin q | _ \<Rightarrow> True)"

text \<open>A decimal literal of the source text denotes the double nearest to it.\<close>

definition literal :: "rat \<Rightarrow> jsnum" where
  "literal q = to_double False q"

subsection \<open>Arithmetic\<close>

definition inf_of :: "bool \<Rightarrow> jsnum" where
  "inf_of negative = (if negative then NegInf else PosInf)"

definition zero_of :: "bool \<Rightarrow> jsnum" where
  "zero_of negative = (if negative then NegZero else Fin 0)"

definition js_mul :: "jsnum \<Rightarrow> jsnum \<Rightarrow> jsnum" where
  "js_mul a b =
     (if a = NaN \<or> b = NaN then NaN
      else if is_inf a \<or> is_inf b then
        (if is_zero a \<or> is_zero b then NaN else inf_of (is_neg a \<noteq> is_neg b))
      else to_double (is_neg a \<noteq> is_neg b) (val a * val b))"

definition js_div :: "jsnum \<Rightarrow> jsnum \<Rightarrow> jsnum" where
  "js_div a b =
     (if a = NaN \<or> b = NaN then NaN
      else if is_inf a then (if is_inf b then NaN else inf_of (is_neg a \<noteq> is_neg b))
      else if is_inf b then zero_of (is_neg a \<noteq> is_neg b)
      else if is_zero b then (if is_zero a then NaN else inf_of (is_neg a \<noteq> is_neg b))
      else to_double (is_neg a \<noteq> is_neg b) (val a / val b))"

definition js_add :: "jsnum \<Rightarrow> jsnum \<Rightarrow> jsnum" where
  "js_add a b =
     (if a = NaN \<or> b = NaN then NaN
      else if is_inf a then (if is_inf b \<and> a \<noteq> b then NaN else a)
      else if is_inf b then b
      else to_double (a = NegZero \<and> b = NegZero) (val a + val b))"

fun js_neg :: "jsnum \<Rightarrow> jsnum" where
  "js_neg (Fin q) = (if q = 0 then NegZero else Fin (- q))"
| "js_neg NegZero = Fin 0"
| "js_neg PosInf = NegInf"
| "js_neg NegInf = PosInf"
| "js_neg NaN = NaN"

definition js_sub :: "jsnum \<Rightarrow> jsnum \<Rightarrow> jsnum" where
  "js_sub a b = js_add a (js_neg b)"

section \<open>The insertion-ordered Map and the stable sort\<close>

text \<open>
  \<open>new Map()\<close> keeps its keys in the order of their first insertion; \<open>set\<close> on a key that
  is present replaces the value where it stands. \<open>map.get\<close> is \<open>map_of\<close>,
  \<open>Array.from(map.values())\<close> is \<open>map snd\<close>.
\<close>

fun map_set :: "'k \<Rightarrow> 'v \<Rightarrow> ('k \<times> 'v) list \<Rightarrow> ('k \<times> 'v) list" where
  "map_set k v [] = [(k, v)]"
| "map_set k v ((k', v') # m) =
     (if k' = k then (k, v) # m else (k', v') # map_set k v m)"

text \<open>
  \<open>Array.prototype.sort\<close> with a comparator function is a stable sort; the comparator
  returns a number whose sign decides.
\<close>

fun insert_sorted :: "('a \<Rightarrow> 'a \<Rightarrow> int) \<Rightarrow> 'a \<Rightarrow> 'a list \<Rightarrow> 'a list" where
  "insert_sorted cmp x [] = [x]"
| "insert_sorted cmp x (y # ys) =
     (if cmp x y \<le> 0 then x # y # ys else y # insert_sorted cmp x ys)"

definition js_sort :: "('a \<Rightarrow> 'a \<Rightarrow> int) \<Rightarrow> 'a list \<Rightarrow> 'a list" where
  "js_sort cmp xs = foldr (insert_sorted cmp) xs []"

section \<open>Latest price per currency\<close>

text \<open>
  \<open>PriceRow\<close> of the swap form and \<open>Token\<close> of the simple converter have the same three
  fields, so they are one record.
\<close>

record PriceRow =
  currency :: string
  date :: string
  price :: jsnum

type_synonym Token = PriceRow

record TokenMeta =
  symbol :: string
  priceUSD :: jsnum
  updatedAt :: string

text \<open>
  \<open>new Date(s).getTime()\<close> is a built-in: an integral number of milliseconds, or NaN when
  \<open>s\<close> does not parse. It is the parameter \<open>getTime\<close>, with \<open>None\<close> for NaN.
  \<open>later getTime d d'\<close> is \<open>new Date(d).getTime() > new Date(d').getTime()\<close>; comparing the
  two \<open>Date\<close> objects with \<open>>\<close>, as \<open>getLatestPrices\<close> does, compares the same two numbers.
\<close>

definition later :: "(string \<Rightarrow> int option) \<Rightarrow> string \<Rightarrow> string \<Rightarrow> bool" where
  "later getTime d d' =
     (case getTime d of
        None \<Rightarrow> False
      | Some t \<Rightarrow> (case getTime d' of None \<Rightarrow> False | Some t' \<Rightarrow> t > t'))"

text \<open>The body of the loop over the rows, the same in both components.\<close>

definition keep_latest ::
  "(string \<Rightarrow> int option) \<Rightarrow> (string \<times> PriceRow) list \<Rightarrow> PriceRow \<Rightarrow> (string \<times> PriceRow) list" where
  "keep_latest getTime m row =
     (case map_of m (currency row) of
        None \<Rightarrow> map_set (currency row) row m
      | Some prev \<Rightarrow>
          if later getTime (date row) (date prev) then map_set (currency row) row m else m)"

definition toTokenMeta :: "PriceRow \<Rightarrow> TokenMeta" where
  "toTokenMeta r = \<lparr>symbol = currency r, priceUSD = price r, updatedAt = date r\<rparr>"

text \<open>
  \<open>byLatestPerCurrency\<close> of the swap form. \<open>typeof r.price === "number"\<close> holds of every
  \<open>jsnum\<close>, which is what the type \<open>PriceRow\<close> promises.
\<close>

definition byLatestPerCurrency :: "(string \<Rightarrow> int option) \<Rightarrow> PriceRow list \<Rightarrow> TokenMeta list" where
  "byLatestPerCurrency getTime rows =
     map toTokenMeta
       (filter (\<lambda>r. isFinite (price r) \<and> js_gt (price r) (Fin 0))
          (map snd (foldl (keep_latest getTime) [] rows)))"

text \<open>
  \<open>getLatestPrices\<close> of the simple converter; \<open>localeCompare\<close> is the built-in string
  comparison, a parameter.
\<close>

definition getLatestPrices ::
  "(string \<Rightarrow> int option) \<Rightarrow> (string \<Rightarrow> string \<Rightarrow> int) \<Rightarrow> Token list \<Rightarrow> Token list" where
  "getLatestPrices getTime localeCompare data =
     js_sort (\<lambda>a b. localeCompare (currency a) (currency b))
       (filter (\<lambda>token. js_gt (price token) (Fin 0))
          (map snd (foldl (keep_latest getTime) [] data)))"

section \<open>The swap form's derived numbers\<close>

text \<open>
  Each \<open>useMemo\<close> value is a function of its dependencies. \<open>amountInNum\<close> takes
  \<open>Number(amountIn)\<close>, the number the text field parses to. The memo \<open>rate\<close> is \<open>swap_rate\<close>
  here, since the history record below has a field \<open>rate\<close> too.
\<close>

definition amountInNum :: "jsnum \<Rightarrow> jsnum" where
  "amountInNum n = (if truthy n then n else Fin 0)"

definition fromToken :: "TokenMeta list \<Rightarrow> string \<Rightarrow> TokenMeta option" where
  "fromToken toks fromSymbol = find (\<lambda>t. symbol t = fromSymbol) toks"

definition toToken :: "TokenMeta list \<Rightarrow> string \<Rightarrow> TokenMeta option" where
  "toToken toks toSymbol = find (\<lambda>t. symbol t = toSymbol) toks"

definition swap_rate :: "TokenMeta option \<Rightarrow> TokenMeta option \<Rightarrow> jsnum" where
  "swap_rate from_token to_token =
     (case from_token of
        None \<Rightarrow> Fin 0
      | Some f \<Rightarrow>
          (case to_token of
             None \<Rightarrow> Fin 0
           | Some t \<Rightarrow> js_div (priceUSD f) (priceUSD t)))"

definition amountOut :: "jsnum \<Rightarrow> jsnum \<Rightarrow> jsnum" where
  "amountOut amount_in_num rate_now = js_mul amount_in_num rate_now"

definition platformFee :: "jsnum \<Rightarrow> jsnum \<Rightarrow> jsnum" where
  "platformFee amount_out feeBps = js_mul amount_out (js_div feeBps (Fin 10000))"

definition minReceived :: "jsnum \<Rightarrow> jsnum \<Rightarrow> jsnum \<Rightarrow> jsnum" where
  "minReceived amount_out slippage platform_fee =
     js_sub (js_mul amount_out (js_sub (Fin 1) (js_div slippage (Fin 100)))) platform_fee"

section \<open>The simple converter: history and conversion\<close>

record ConversionHistory =
  from_currency :: string
  to_currency :: string
  amount :: jsnum
  result :: jsnum
  rate :: jsnum
  timestamp :: string

text \<open>
  The component's state that the conversion touches: the React state variables and the
  \<open>conversionHistory\<close> item of the session storage (the list handed to \<open>JSON.stringify\<close>,
  \<open>None\<close> when the item is absent).
\<close>

record converter =
  tokens :: "Token list"
  fromCurrency :: string
  toCurrency :: string
  amount_text :: string
  result_shown :: "jsnum option"
  history :: "ConversionHistory list"
  stored :: "ConversionHistory list option"

definition saveToHistory :: "ConversionHistory \<Rightarrow> converter \<Rightarrow> converter" where
  "saveToHistory conversion s =
     (let newHistory = take 10 (conversion # history s)
      in s\<lparr>history := newHistory, stored := Some newHistory\<rparr>)"

text \<open>
  \<open>parseFloat\<close> and the clock behind \<open>new Date().toLocaleString()\<close> are built-ins: the
  parameters \<open>parseFloat\<close> and \<open>now\<close>. An empty string is falsy. Every early \<open>return\<close>
  leaves the state as it is.
\<close>

definition convertCurrency :: "(string \<Rightarrow> jsnum) \<Rightarrow> string \<Rightarrow> converter \<Rightarrow> converter" where
  "convertCurrency parseFloat now s =
     (if \<not> truthy (parseFloat (amount_text s)) \<or> fromCurrency s = [] \<or> toCurrency s = [] then s
      else
        case find (\<lambda>t. currency t = fromCurrency s) (tokens s) of
          None \<Rightarrow> s
        | Some from_token \<Rightarrow>
            (case find (\<lambda>t. currency t = toCurrency s) (tokens s) of
               None \<Rightarrow> s
             | Some to_token \<Rightarrow>
                 saveToHistory
                   \<lparr>from_currency = fromCurrency s,
                    to_currency = toCurrency s,
                    amount = parseFloat (amount_text s),
                    result = js_mul (parseFloat (amount_text s))
                               (js_div (price from_token) (price to_token)),
                    rate = js_div (price from_token) (price to_token),
                    timestamp = now\<rparr>
                   (s\<lparr>result_shown :=
                        Some (js_mul (parseFloat (amount_text s))
                                (js_div (price from_token) (price to_token)))\<rparr>)))"

section \<open>Three ways to sum to n\<close>







section \<open>Notions used in the proofs\<close>

text \<open>Every key of the Map is the currency of the row stored under it, and keys are distinct.\<close>

definition keyed :: "(string \<times> PriceRow) list \<Rightarrow> bool" where
  "keyed m = (distinct (map fst m) \<and> (\<forall>(k, r) \<in> set m. currency r = k))"

text \<open>What one row does to the entry of its own currency.\<close>

definition pick :: "(string \<Rightarrow> int option) \<Rightarrow> PriceRow option \<Rightarrow> PriceRow \<Rightarrow> PriceRow option" where
  "pick getTime prev row =
     (case prev of
        None \<Rightarrow> Some row
      | Some p \<Rightarrow> if later getTime (date row) (date p) then Some row else Some p)"

text \<open>The row that the loop keeps for currency \<open>c\<close>, as a list of at most one row.\<close>

definition selected :: "(string \<Rightarrow> int option) \<Rightarrow> string \<Rightarrow> PriceRow list \<Rightarrow> PriceRow list" where
  "selected getTime c rows =
     (case foldl (pick getTime) None (filter (\<lambda>r. currency r = c) rows) of
        None \<Rightarrow> []
      | Some r \<Rightarrow> [r])"



section \<open>Example data\<close>

text \<open>The two dates of the scenarios, as \<open>Date\<close> reads them (UTC midnight, in milliseconds).\<close>

definition scenario_time :: "string \<Rightarrow> int option" where
  "scenario_time s =
     (if s = ''2024-01-01'' then Some 1704067200000
      else if s = ''2024-01-02'' then Some 1704153600000
      else None)"

text \<open>A comparator for the examples: strings by their code units.\<close>

fun code_unit_compare :: "string \<Rightarrow> string \<Rightarrow> int" where
  "code_unit_compare [] [] = 0"
| "code_unit_compare [] (y # ys) = - 1"
| "code_unit_compare (x # xs) [] = 1"
| "code_unit_compare (x # xs) (y # ys) =
     (if (of_char x :: nat) < of_char y then - 1
      else if (of_char y :: nat) < of_char x then 1
      else code_unit_compare xs ys)"

definition scenario1 :: "PriceRow list" where
  "scenario1 =
     [\<lparr>currency = ''ETH'', date = ''2024-01-01'', price = Fin 3000\<rparr>,
      \<lparr>currency = ''ETH'', date = ''2024-01-02'', price = Fin 3100\<rparr>,
      \<lparr>currency = ''USDC'', date = ''2024-01-01'', price = Fin 1\<rparr>]"

definition tie_rows :: "PriceRow list" where
  "tie_rows =
     [\<lparr>currency = ''ETH'', date = ''2024-01-02'', price = Fin 3000\<rparr>,
      \<lparr>currency = ''USDC'', date = ''2024-01-01'', price = Fin 1\<rparr>,
      \<lparr>currency = ''ETH'', date = ''2024-01-02'', price = Fin 3100\<rparr>]"

definition three_eth_rows :: "PriceRow list" where
  "three_eth_rows =
     [\<lparr>currency = ''ETH'', date = ''2024-01-02'', price = Fin 3100\<rparr>,
      \<lparr>currency = ''USDC'', date = ''2024-01-01'', price = Fin 1\<rparr>,
      \<lparr>currency = ''ETH'', date = ''2024-01-01'', price = Fin 3000\<rparr>,
      \<lparr>currency = ''ETH'', date = ''2024-01-02'', price = Fin 3200\<rparr>]"

definition scenario_tokens :: "TokenMeta list" where
  "scenario_tokens =
     [\<lparr>symbol = ''ETH'', priceUSD = Fin 3100, updatedAt = ''2024-01-02''\<rparr>,
      \<lparr>symbol = ''USDC'', priceUSD = Fin 1, updatedAt = ''2024-01-01''\<rparr>]"

definition scenario_converter :: converter where
  "scenario_converter =
     \<lparr>tokens = [\<lparr>currency = ''ETH'', date = ''2024-01-02'', price = Fin 3100\<rparr>,
                \<lparr>currency = ''USDC'', date = ''2024-01-01'', price = Fin 1\<rparr>],
      fromCurrency = ''ETH'', toCurrency = ''USDC'', amount_text = ''2'',
      result_shown = None, history = [], stored = None\<rparr>"

definition scenario_parseFloat :: "string \<Rightarrow> jsnum" where
  "scenario_parseFloat s = (if s = ''2'' then Fin 2 else NaN)"

section \<open>Facts about rounding\<close>

lemma floor_rat_numeral_divide:
  "\<lfloor>numeral a / numeral b :: rat\<rfloor> = numeral a div numeral b"
  using floor_divide_of_int_eq [of "numeral a" "numeral b", where ?'a = rat] by simp

lemma round_half_even_fraction:
  assumes "0 < b"
  shows "round_half_even (of_int a / of_int b) =
     (if 2 * (a mod b) < b then a div b
      else if b < 2 * (a mod b) then a div b + 1
      else if even (a div b) then a div b else a div b + 1)"
proof -
  have f: "\<lfloor>of_int a / of_int b :: rat\<rfloor> = a div b"
    by (rule floor_divide_of_int_eq)
  have "of_int a = (of_int (a div b) * of_int b + of_int (a mod b) :: rat)"
    by (metis of_int_add of_int_mult div_mult_mod_eq)
  with assms have r: "of_int a / of_int b - of_int (a div b) = (of_int (a mod b) / of_int b :: rat)"
    by (simp add: field_simps)
  have lt: "(of_int (a mod b) / of_int b < (1 / 2 :: rat)) = (2 * (a mod b) < b)"
  proof -
    have "(of_int (a mod b) / of_int b < (1 / 2 :: rat)) = ((of_int (2 * (a mod b)) :: rat) < of_int b)"
      using assms by (simp add: field_simps)
    then show ?thesis by (simp only: of_int_less_iff)
  qed
  have gt: "((1 / 2 :: rat) < of_int (a mod b) / of_int b) = (b < 2 * (a mod b))"
  proof -
    have "((1 / 2 :: rat) < of_int (a mod b) / of_int b) = ((of_int b :: rat) < of_int (2 * (a mod b)))"
      using assms by (simp add: field_simps)
    then show ?thesis by (simp only: of_int_less_iff)
  qed
  show ?thesis
    unfolding round_half_even_def Let_def f r lt gt ..
qed

lemma round_half_even_numeral_divide:
  "round_half_even (numeral a / numeral b) =
     (if 2 * (numeral a mod numeral b) < (numeral b :: int) then numeral a div numeral b
      else if (numeral b :: int) < 2 * (numeral a mod numeral b) then numeral a div numeral b + 1
      else if even (numeral a div numeral b :: int) then numeral a div numeral b
      else numeral a div numeral b + 1)"
  using round_half_even_fraction [of "numeral b" "numeral a"] by simp

lemma round_half_even_one_divide:
  "round_half_even (1 / numeral b) =
     (if 2 * (1 mod numeral b) < (numeral b :: int) then 1 div numeral b
      else if (numeral b :: int) < 2 * (1 mod numeral b) then 1 div numeral b + 1
      else if even (1 div numeral b :: int) then 1 div numeral b
      else 1 div numeral b + 1)"
  using round_half_even_fraction [of "numeral b" 1] by simp

lemma round_half_even_of_int: "round_half_even (of_int k) = k"
  by (simp add: round_half_even_def)

lemma round_half_even_numeral: "round_half_even (numeral a) = numeral a"
  using round_half_even_of_int [of "numeral a"] by simp

lemma round_half_even_one: "round_half_even 1 = 1"
  using round_half_even_of_int [of 1] by simp

text \<open>The equations that evaluate a rounding at a numeral.\<close>

lemmas double_eval = to_double_def round_magnitude_def ulp_exponent_def ilog2_def pow2_def
  log2_up.simps log2_down.simps floor_rat_numeral_divide
  round_half_even_numeral_divide round_half_even_numeral round_half_even_one_divide
  round_half_even_one







lemma to_double_one: "to_double False 1 = Fin 1"
  by (simp add: double_eval)





lemma js_div_self: "0 < p \<Longrightarrow> js_div (Fin p) (Fin p) = Fin 1"
  by (simp add: js_div_def to_double_one)

lemma js_mul_one: "0 < a \<Longrightarrow> is_double (Fin a) \<Longrightarrow> js_mul (Fin a) (Fin 1) = Fin a"
  by (simp add: js_mul_def is_double_def)

lemma js_gt_zero_cases:
  "js_gt p (Fin 0) = (p = PosInf \<or> (\<exists>q. p = Fin q \<and> 0 < q))"
  by (cases p) auto

section \<open>Facts about the Map and the sort\<close>

lemma map_of_map_set: "map_of (map_set k v m) = (map_of m)(k \<mapsto> v)"
  by (induction m) (auto simp: fun_eq_iff)

lemma keys_map_set:
  "map fst (map_set k v m) = (if k \<in> set (map fst m) then map fst m else map fst m @ [k])"
  by (induction m) force+

lemma set_map_set: "set (map_set k v m) \<subseteq> insert (k, v) (set m)"
  by (induction m) (auto split: if_splits)

lemma keyed_map_set:
  assumes "keyed m"
  shows "keyed (map_set (currency r) r m)"
proof -
  have "distinct (map fst (map_set (currency r) r m))"
    using assms by (simp add: keyed_def keys_map_set)
  moreover have "currency r' = k" if "(k, r') \<in> set (map_set (currency r) r m)" for k r'
  proof -
    from that set_map_set [of "currency r" r m]
    have "(k, r') = (currency r, r) \<or> (k, r') \<in> set m" by blast
    with assms show ?thesis by (auto simp: keyed_def)
  qed
  ultimately show ?thesis by (auto simp: keyed_def)
qed

lemma keyed_keep_latest: "keyed m \<Longrightarrow> keyed (keep_latest getTime m row)"
  by (simp add: keep_latest_def keyed_map_set split: option.splits)

lemma keyed_foldl: "keyed m \<Longrightarrow> keyed (foldl (keep_latest getTime) m rows)"
  by (induction rows arbitrary: m) (simp_all add: keyed_keep_latest)

lemma keyed_Nil: "keyed []"
  by (simp add: keyed_def)

lemma keyed_currencies: "keyed m \<Longrightarrow> map currency (map snd m) = map fst m"
  by (induction m) (auto simp: keyed_def)

lemma keyed_distinct:
  assumes "keyed m"
  shows "distinct (map currency (map snd m))"
proof -
  have "distinct (map fst m)" using assms by (simp add: keyed_def)
  then show ?thesis by (simp only: keyed_currencies [OF assms])
qed

lemma keyed_filter_currency:
  "keyed m \<Longrightarrow>
   filter (\<lambda>r. currency r = c) (map snd m) = (case map_of m c of None \<Rightarrow> [] | Some r \<Rightarrow> [r])"
proof (induction m)
  case Nil
  then show ?case by simp
next
  case (Cons kr m)
  obtain k r where kr: "kr = (k, r)" by (cases kr)
  from Cons.prems have km: "keyed m" and ck: "currency r = k" and nk: "k \<notin> fst ` set m"
    by (auto simp: keyed_def kr)
  show ?case
  proof (cases "k = c")
    case True
    with nk have "map_of m c = None" by (simp add: map_of_eq_None_iff)
    with Cons.IH [OF km] True ck show ?thesis by (simp add: kr)
  next
    case False
    with Cons.IH [OF km] ck show ?thesis by (simp add: kr)
  qed
qed

lemma mset_insert_sorted: "mset (insert_sorted cmp x ys) = add_mset x (mset ys)"
  by (induction ys) auto

lemma mset_js_sort: "mset (js_sort cmp xs) = mset xs"
  unfolding js_sort_def by (induction xs) (simp_all add: mset_insert_sorted)

lemma set_js_sort: "set (js_sort cmp xs) = set xs"
  using mset_js_sort [of cmp xs] by (metis set_mset_mset)

lemma distinct_map_js_sort: "distinct (map f (js_sort cmp xs)) = distinct (map f xs)"
proof -
  have "mset (map f (js_sort cmp xs)) = mset (map f xs)"
    by (simp add: mset_js_sort)
  then show ?thesis by (rule mset_eq_imp_distinct_iff)
qed

lemma same_mset_short: "mset ys = mset xs \<Longrightarrow> length xs \<le> 1 \<Longrightarrow> ys = xs"
  by (cases xs; cases ys) (auto simp: length_Suc_conv dest: mset_eq_length)

section \<open>The loop, one currency at a time\<close>

lemma map_of_keep_latest:
  "map_of (keep_latest getTime m row) c =
     (if currency row = c then pick getTime (map_of m c) row else map_of m c)"
  by (auto simp: keep_latest_def pick_def map_of_map_set split: option.splits)

lemma map_of_foldl_keep_latest:
  "map_of (foldl (keep_latest getTime) m rows) c =
     foldl (pick getTime) (map_of m c) (filter (\<lambda>r. currency r = c) rows)"
  by (induction rows arbitrary: m) (simp_all add: map_of_keep_latest)

lemma latest_rows_of_currency:
  "filter (\<lambda>r. currency r = c) (map snd (foldl (keep_latest getTime) [] rows)) =
     selected getTime c rows"
  by (simp add: keyed_filter_currency [OF keyed_foldl [OF keyed_Nil]]
      map_of_foldl_keep_latest selected_def)

lemma length_selected: "length (selected getTime c rows) \<le> 1"
  by (simp add: selected_def split: option.splits)

lemma byLatestPerCurrency_of_currency:
  "filter (\<lambda>q. symbol q = c) (byLatestPerCurrency getTime rows) =
     map toTokenMeta
       (filter (\<lambda>r. isFinite (price r) \<and> js_gt (price r) (Fin 0)) (selected getTime c rows))"
proof -
  have "filter (\<lambda>q. symbol q = c) (map toTokenMeta xs) =
        map toTokenMeta (filter (\<lambda>r. currency r = c) xs)" for xs
    by (induction xs) (simp_all add: toTokenMeta_def)
  then show ?thesis
    unfolding byLatestPerCurrency_def
    by (simp only: filter_filter conj_commute latest_rows_of_currency [symmetric])
qed

lemma getLatestPrices_of_currency:
  "filter (\<lambda>t. currency t = c) (getLatestPrices getTime localeCompare rows) =
     filter (\<lambda>t. js_gt (price t) (Fin 0)) (selected getTime c rows)"
proof -
  let ?m = "map snd (foldl (keep_latest getTime) [] rows)"
  let ?ok = "\<lambda>t. js_gt (price t) (Fin 0)"
  have "mset (filter (\<lambda>t. currency t = c) (getLatestPrices getTime localeCompare rows)) =
        mset (filter (\<lambda>t. currency t = c) (filter ?ok ?m))"
    by (simp only: getLatestPrices_def mset_filter mset_js_sort)
  also have "filter (\<lambda>t. currency t = c) (filter ?ok ?m) = filter ?ok (selected getTime c rows)"
    by (simp only: filter_filter conj_commute latest_rows_of_currency [symmetric])
  finally show ?thesis
    by (rule same_mset_short)
       (rule order_trans [OF length_filter_le length_selected])
qed

lemma selected_two_later:
  assumes "filter (\<lambda>r. currency r = c) rows = [r1, r2] \<or>
           filter (\<lambda>r. currency r = c) rows = [r2, r1]"
    and "later getTime (date r2) (date r1)"
  shows "selected getTime c rows = [r2]"
proof -
  from assms(2) have "\<not> later getTime (date r1) (date r2)"
    by (auto simp: later_def split: option.splits)
  with assms show ?thesis
    by (auto simp: selected_def pick_def)
qed

text \<open>What both reductions do keep: rows of the input, with a price above zero.\<close>

lemma kept_rows_from_input:
  "snd ` set (foldl (keep_latest getTime) m rows) \<subseteq> snd ` set m \<union> set rows"
proof (induction rows arbitrary: m)
  case Nil
  show ?case by simp
next
  case (Cons row rows)
  have "snd ` set (keep_latest getTime m row) \<subseteq> insert row (snd ` set m)"
    using set_map_set [of "currency row" row m]
    by (auto simp: keep_latest_def split: option.splits)
  with Cons.IH [of "keep_latest getTime m row"] show ?case by auto
qed

lemma byLatestPerCurrency_valid:
  assumes "q \<in> set (byLatestPerCurrency getTime rows)"
  shows "isFinite (priceUSD q) \<and> js_gt (priceUSD q) (Fin 0) \<and> q \<in> toTokenMeta ` set rows"
  using assms kept_rows_from_input [of getTime "[]" rows]
  by (auto simp: byLatestPerCurrency_def toTokenMeta_def)

lemma getLatestPrices_positive:
  assumes "t \<in> set (getLatestPrices getTime localeCompare rows)"
  shows "(price t = PosInf \<or> (\<exists>q. price t = Fin q \<and> 0 < q)) \<and> t \<in> set rows"
  using assms kept_rows_from_input [of getTime "[]" rows]
  by (auto simp: getLatestPrices_def set_js_sort js_gt_zero_cases)

text \<open>
  With every date of a currency readable, the loop keeps the first of the observations that
  carry the latest timestamp.
\<close>

lemma later_stamps:
  "getTime d = Some t \<Longrightarrow> getTime d' = Some t' \<Longrightarrow> later getTime d d' = (t' < t)"
  by (simp add: later_def)

lemma kept_first_latest:
  assumes "cs \<noteq> []" and "\<forall>r \<in> set cs. getTime (date r) \<noteq> None"
  shows "\<exists>k < length cs. foldl (pick getTime) None cs = Some (cs ! k)
           \<and> (\<forall>j < length cs. \<not> later getTime (date (cs ! j)) (date (cs ! k)))
           \<and> (\<forall>j < k. later getTime (date (cs ! k)) (date (cs ! j)))"
  using assms
proof (induction cs rule: rev_nonempty_induct)
  case (single x)
  have "\<not> later getTime (date x) (date x)"
    by (simp add: later_def split: option.splits)
  then show ?case by (simp add: pick_def)
next
  case (snoc x xs)
  from snoc.prems have px: "getTime (date x) \<noteq> None"
    and pxs: "\<forall>r \<in> set xs. getTime (date r) \<noteq> None" by simp_all
  from snoc.IH [OF pxs] obtain k where k: "k < length xs"
    and kept: "foldl (pick getTime) None xs = Some (xs ! k)"
    and latest: "\<forall>j < length xs. \<not> later getTime (date (xs ! j)) (date (xs ! k))"
    and first: "\<forall>j < k. later getTime (date (xs ! k)) (date (xs ! j))"
    by blast
  from px obtain tx where tx: "getTime (date x) = Some tx" by auto
  from pxs k obtain tk where tk: "getTime (date (xs ! k)) = Some tk" by fastforce
  have stamp: "\<exists>t. getTime (date (xs ! j)) = Some t \<and> t \<le> tk" if "j < length xs" for j
  proof -
    from pxs that obtain t where t: "getTime (date (xs ! j)) = Some t" by fastforce
    from latest that have "\<not> later getTime (date (xs ! j)) (date (xs ! k))" by blast
    with t tk have "t \<le> tk" by (simp add: later_stamps)
    with t show ?thesis by blast
  qed
  show ?case
  proof (cases "later getTime (date x) (date (xs ! k))")
    case True
    with tx tk have lt: "tk < tx" by (simp add: later_def)
    have "foldl (pick getTime) None (xs @ [x]) = Some ((xs @ [x]) ! length xs)"
      using kept True by (simp add: pick_def)
    moreover have "\<not> later getTime (date ((xs @ [x]) ! j)) (date ((xs @ [x]) ! length xs))"
      if "j < length (xs @ [x])" for j
    proof (cases "j < length xs")
      case True
      from stamp [OF this] lt tx show ?thesis
        by (auto simp: nth_append later_def True)
    next
      case False
      with that have "j = length xs" by simp
      with tx show ?thesis by (simp add: later_def)
    qed
    moreover have "later getTime (date ((xs @ [x]) ! length xs)) (date ((xs @ [x]) ! j))"
      if "j < length xs" for j
      using stamp [OF that] lt tx by (auto simp: nth_append later_def that)
    ultimately show ?thesis
      by (intro exI [of _ "length xs"]) simp
  next
    case False
    have "foldl (pick getTime) None (xs @ [x]) = Some ((xs @ [x]) ! k)"
      using kept False k by (simp add: pick_def nth_append)
    moreover have "\<not> later getTime (date ((xs @ [x]) ! j)) (date ((xs @ [x]) ! k))"
      if "j < length (xs @ [x])" for j
    proof (cases "j < length xs")
      case True
      with latest k show ?thesis by (simp add: nth_append)
    next
      case n: False
      with that have "j = length xs" by simp
      with False k show ?thesis by (simp add: nth_append)
    qed
    moreover have "later getTime (date ((xs @ [x]) ! k)) (date ((xs @ [x]) ! j))"
      if "j < k" for j
      using first that k by (simp add: nth_append)
    ultimately show ?thesis
      using k by (intro exI [of _ k]) simp
  qed
qed


lemma selected_first_latest:
  assumes "\<forall>r \<in> set rows. currency r = c \<longrightarrow> getTime (date r) \<noteq> None"
    and "filter (\<lambda>r. currency r = c) rows \<noteq> []"
  shows "\<exists>k < length (filter (\<lambda>r. currency r = c) rows).
           selected getTime c rows = [filter (\<lambda>r. currency r = c) rows ! k]
           \<and> (\<forall>j < length (filter (\<lambda>r. currency r = c) rows).
                 \<not> later getTime (date (filter (\<lambda>r. currency r = c) rows ! j))
                       (date (filter (\<lambda>r. currency r = c) rows ! k)))
           \<and> (\<forall>j < k. later getTime (date (filter (\<lambda>r. currency r = c) rows ! k))
                       (date (filter (\<lambda>r. currency r = c) rows ! j)))"
proof -
  let ?cs = "filter (\<lambda>r. currency r = c) rows"
  from assms(1) have "\<forall>r \<in> set ?cs. getTime (date r) \<noteq> None" by simp
  from kept_first_latest [OF assms(2) this] obtain k where "k < length ?cs"
    and "foldl (pick getTime) None ?cs = Some (?cs ! k)"
    and "\<forall>j < length ?cs. \<not> later getTime (date (?cs ! j)) (date (?cs ! k))"
    and "\<forall>j < k. later getTime (date (?cs ! k)) (date (?cs ! j))"
    by blast
  then show ?thesis
    by (intro exI [of _ k]) (simp add: selected_def)
qed

lemma selected_latest_stamp:
  assumes "\<forall>r \<in> set rows. currency r = c \<longrightarrow> (\<exists>t. getTime (date r) = Some t \<and> t \<le> t2)"
    and "r2 \<in> set rows" and "currency r2 = c" and "getTime (date r2) = Some t2"
  shows "\<exists>r. selected getTime c rows = [r] \<and> getTime (date r) = Some t2"
proof -
  let ?cs = "filter (\<lambda>r. currency r = c) rows"
  from assms(2,3) have in_cs: "r2 \<in> set ?cs" by simp
  then have ne: "?cs \<noteq> []" by (metis empty_iff empty_set)
  from assms(1) have "\<forall>r \<in> set rows. currency r = c \<longrightarrow> getTime (date r) \<noteq> None" by auto
  from selected_first_latest [OF this ne] obtain k where k: "k < length ?cs"
    and sel: "selected getTime c rows = [?cs ! k]"
    and latest: "\<forall>j < length ?cs. \<not> later getTime (date (?cs ! j)) (date (?cs ! k))"
    by blast
  from k have "?cs ! k \<in> set ?cs" by (rule nth_mem)
  then have "?cs ! k \<in> set rows" and "currency (?cs ! k) = c" by simp_all
  with assms(1) obtain tk where tk: "getTime (date (?cs ! k)) = Some tk" and le: "tk \<le> t2"
    by blast
  from in_cs obtain j where "j < length ?cs" and "?cs ! j = r2"
    unfolding in_set_conv_nth by blast
  with latest have "\<not> later getTime (date r2) (date (?cs ! k))" by auto
  with assms(4) tk have "t2 \<le> tk" by (simp add: later_stamps)
  with le tk have "getTime (date (?cs ! k)) = Some t2" by simp
  with sel show ?thesis by blast
qed


lemma three_eth_rows_byLatest:
  "byLatestPerCurrency scenario_time three_eth_rows =
     [\<lparr>symbol = ''ETH'', priceUSD = Fin 3100, updatedAt = ''2024-01-02''\<rparr>,
      \<lparr>symbol = ''USDC'', priceUSD = Fin 1, updatedAt = ''2024-01-01''\<rparr>]"
  by (simp add: byLatestPerCurrency_def three_eth_rows_def keep_latest_def later_def
      scenario_time_def toTokenMeta_def)

lemma three_eth_rows_getLatest:
  "getLatestPrices scenario_time code_unit_compare three_eth_rows =
     [\<lparr>currency = ''ETH'', date = ''2024-01-02'', price = Fin 3100\<rparr>,
      \<lparr>currency = ''USDC'', date = ''2024-01-01'', price = Fin 1\<rparr>]"
  by (simp add: getLatestPrices_def three_eth_rows_def keep_latest_def later_def
      scenario_time_def js_sort_def)

section \<open>Claims about the reduction\<close>

text \<open>
  Claim C2: no record whose price is \<open>\<le> 0\<close> or non-finite appears in the output of the
  reduction. \<open>byLatestPerCurrency\<close> tests \<open>isFinite\<close> and keeps that promise (lemma
  \<open>byLatestPerCurrency_valid\<close>). \<open>getLatestPrices\<close> tests \<open>price > 0\<close> alone, which
  \<open>Infinity\<close> passes: a feed whose only row for a currency has the price \<open>1e999\<close> (which
  JSON parsing reads as \<open>Infinity\<close>) gets that row back, where \<open>byLatestPerCurrency\<close> drops it.
\<close>

theorem getLatestPrices_keeps_infinite_price:
  "getLatestPrices getTime localeCompare
     [\<lparr>currency = ''ETH'', date = ''2024-01-01'', price = PosInf\<rparr>] =
     [\<lparr>currency = ''ETH'', date = ''2024-01-01'', price = PosInf\<rparr>]
   \<and> \<not> isFinite PosInf
   \<and> byLatestPerCurrency getTime
     [\<lparr>currency = ''ETH'', date = ''2024-01-01'', price = PosInf\<rparr>] = []"
  by (simp add: getLatestPrices_def byLatestPerCurrency_def keep_latest_def js_sort_def)

text \<open>
  Claim C3: latest wins. When the observations of a currency are two, with timestamps
  \<open>T1 < T2\<close>, in either order and anywhere among the rows of other currencies, the quote
  of that currency in the output is the one made from the observation at \<open>T2\<close> (it is there
  whenever that observation's price passes the filter). And with any number of
  observations of the currency, all of them dated readably and none later than \<open>T2\<close>, of
  which one is at \<open>T2\<close>: every output quote of the currency has \<open>asOf\<close> (\<open>updatedAt\<close>,
  \<open>date\<close>) at \<open>T2\<close>.
\<close>

theorem latest_wins:
  "((filter (\<lambda>r. currency r = c) rows = [r1, r2] \<or> filter (\<lambda>r. currency r = c) rows = [r2, r1])
      \<and> getTime (date r1) = Some t1 \<and> getTime (date r2) = Some t2 \<and> t1 < t2 \<longrightarrow>
      filter (\<lambda>q. symbol q = c) (byLatestPerCurrency getTime rows) =
        (if isFinite (price r2) \<and> js_gt (price r2) (Fin 0) then [toTokenMeta r2] else [])
      \<and> filter (\<lambda>t. currency t = c) (getLatestPrices getTime localeCompare rows) =
        (if js_gt (price r2) (Fin 0) then [r2] else []))
   \<and> ((\<forall>r \<in> set rows. currency r = c \<longrightarrow> (\<exists>t. getTime (date r) = Some t \<and> t \<le> t2))
      \<and> r2 \<in> set rows \<and> currency r2 = c \<and> getTime (date r2) = Some t2 \<longrightarrow>
      (\<forall>q \<in> set (byLatestPerCurrency getTime rows).
         symbol q = c \<longrightarrow> getTime (updatedAt q) = Some t2)
      \<and> (\<forall>t \<in> set (getLatestPrices getTime localeCompare rows).
         currency t = c \<longrightarrow> getTime (date t) = Some t2))"
proof (intro conjI impI)
  assume h: "(filter (\<lambda>r. currency r = c) rows = [r1, r2] \<or> filter (\<lambda>r. currency r = c) rows = [r2, r1])
      \<and> getTime (date r1) = Some t1 \<and> getTime (date r2) = Some t2 \<and> t1 < t2"
  then have "later getTime (date r2) (date r1)"
    by (simp add: later_def)
  with h have s: "selected getTime c rows = [r2]"
    by (intro selected_two_later) blast+
  show "filter (\<lambda>q. symbol q = c) (byLatestPerCurrency getTime rows) =
        (if isFinite (price r2) \<and> js_gt (price r2) (Fin 0) then [toTokenMeta r2] else [])"
    by (simp add: byLatestPerCurrency_of_currency s)
  show "filter (\<lambda>t. currency t = c) (getLatestPrices getTime localeCompare rows) =
        (if js_gt (price r2) (Fin 0) then [r2] else [])"
    by (simp add: getLatestPrices_of_currency s)
next
  assume h: "(\<forall>r \<in> set rows. currency r = c \<longrightarrow> (\<exists>t. getTime (date r) = Some t \<and> t \<le> t2))
      \<and> r2 \<in> set rows \<and> currency r2 = c \<and> getTime (date r2) = Some t2"
  then obtain r where s: "selected getTime c rows = [r]" and t: "getTime (date r) = Some t2"
    using selected_latest_stamp [of rows c getTime t2 r2] by blast
  show "\<forall>q \<in> set (byLatestPerCurrency getTime rows).
         symbol q = c \<longrightarrow> getTime (updatedAt q) = Some t2"
  proof (intro ballI impI)
    fix q assume "q \<in> set (byLatestPerCurrency getTime rows)" and "symbol q = c"
    then have "q \<in> set (filter (\<lambda>q. symbol q = c) (byLatestPerCurrency getTime rows))"
      by simp
    then have "q = toTokenMeta r"
      unfolding byLatestPerCurrency_of_currency s by (simp split: if_splits)
    with t show "getTime (updatedAt q) = Some t2" by (simp add: toTokenMeta_def)
  qed
  show "\<forall>t \<in> set (getLatestPrices getTime localeCompare rows).
         currency t = c \<longrightarrow> getTime (date t) = Some t2"
  proof (intro ballI impI)
    fix x assume "x \<in> set (getLatestPrices getTime localeCompare rows)" and "currency x = c"
    then have "x \<in> set (filter (\<lambda>t. currency t = c) (getLatestPrices getTime localeCompare rows))"
      by simp
    then have "x = r"
      unfolding getLatestPrices_of_currency s by (simp split: if_splits)
    with t show "getTime (date x) = Some t2" by simp
  qed
qed

theorem latest_wins_witness:
  "filter (\<lambda>q. symbol q = ''ETH'') (byLatestPerCurrency scenario_time scenario1) =
     [\<lparr>symbol = ''ETH'', priceUSD = Fin 3100, updatedAt = ''2024-01-02''\<rparr>]
   \<and> filter (\<lambda>q. symbol q = ''ETH'') (byLatestPerCurrency scenario_time (rev scenario1)) =
     [\<lparr>symbol = ''ETH'', priceUSD = Fin 3100, updatedAt = ''2024-01-02''\<rparr>]
   \<and> filter (\<lambda>t. currency t = ''ETH'') (getLatestPrices scenario_time code_unit_compare scenario1) =
     [\<lparr>currency = ''ETH'', date = ''2024-01-02'', price = Fin 3100\<rparr>]
   \<and> \<lparr>symbol = ''ETH'', priceUSD = Fin 3100, updatedAt = ''2024-01-02''\<rparr>
       \<in> set (byLatestPerCurrency scenario_time three_eth_rows)
   \<and> scenario_time (updatedAt \<lparr>symbol = ''ETH'', priceUSD = Fin 3100, updatedAt = ''2024-01-02''\<rparr>) =
       Some 1704153600000"
proof -
  let ?r1 = "\<lparr>currency = ''ETH'', date = ''2024-01-01'', price = Fin 3000\<rparr>"
  let ?r2 = "\<lparr>currency = ''ETH'', date = ''2024-01-02'', price = Fin 3100\<rparr>"
  let ?q = "\<lparr>symbol = ''ETH'', priceUSD = Fin 3100, updatedAt = ''2024-01-02''\<rparr>"
  have two: "(filter (\<lambda>r. currency r = ''ETH'') rows = [?r1, ?r2] \<or>
            filter (\<lambda>r. currency r = ''ETH'') rows = [?r2, ?r1])
      \<and> scenario_time (date ?r1) = Some 1704067200000
      \<and> scenario_time (date ?r2) = Some 1704153600000
      \<and> (1704067200000 :: int) < 1704153600000"
    if "rows = scenario1 \<or> rows = rev scenario1" for rows
    using that by (auto simp: scenario1_def scenario_time_def)
  have gen: "(\<forall>r \<in> set three_eth_rows. currency r = ''ETH'' \<longrightarrow>
               (\<exists>t. scenario_time (date r) = Some t \<and> t \<le> 1704153600000))
      \<and> ?r2 \<in> set three_eth_rows \<and> currency ?r2 = ''ETH''
      \<and> scenario_time (date ?r2) = Some 1704153600000"
    by (simp add: three_eth_rows_def scenario_time_def)
  have m: "?q \<in> set (byLatestPerCurrency scenario_time three_eth_rows)"
    by (simp add: three_eth_rows_byLatest)
  note a = latest_wins [of "''ETH''" scenario1 ?r1 ?r2 scenario_time, THEN conjunct1, THEN mp, OF two]
  note b = latest_wins [of "''ETH''" "rev scenario1" ?r1 ?r2 scenario_time,
      THEN conjunct1, THEN mp, OF two]
  note g = latest_wins [of "''ETH''" three_eth_rows _ ?r2 scenario_time,
      THEN conjunct2, THEN mp, OF gen, THEN conjunct1, THEN bspec, OF m]
  from a [of code_unit_compare] b [of code_unit_compare] g m show ?thesis
    by (simp add: toTokenMeta_def)
qed


text \<open>
  Claim C4: for every input sequence, the output of either reduction holds at most one
  quote per currency: the currencies of the output are pairwise distinct.
\<close>

theorem reduction_currencies_distinct:
  "distinct (map symbol (byLatestPerCurrency getTime rows))
   \<and> distinct (map currency (getLatestPrices getTime localeCompare rows))"
proof -
  let ?m = "foldl (keep_latest getTime) [] rows"
  have d: "distinct (map currency (map snd ?m))"
    by (rule keyed_distinct) (rule keyed_foldl [OF keyed_Nil])
  have s: "map symbol (map toTokenMeta xs) = map currency xs" for xs
    by (simp add: toTokenMeta_def)
  have "distinct (map symbol (byLatestPerCurrency getTime rows))"
    unfolding byLatestPerCurrency_def s by (rule distinct_map_filter [OF d])
  moreover have "distinct (map currency (getLatestPrices getTime localeCompare rows))"
    unfolding getLatestPrices_def distinct_map_js_sort by (rule distinct_map_filter [OF d])
  ultimately show ?thesis by simp
qed

text \<open>
  Claim C7: the reduction raises no error (neither function has a failing step: both are
  total functions to lists), the empty input gives the empty output, and malformed rows are
  left out. The last part fails in \<open>getLatestPrices\<close> for a row whose price is \<open>Infinity\<close>:
  here the feed has a valid USDC row and a BTC row with the price \<open>1e999\<close>; the swap form's
  reduction leaves BTC out, the simple converter's keeps it, with no error in either.
\<close>

theorem reduction_on_malformed_rows:
  "byLatestPerCurrency getTime [] = []
   \<and> getLatestPrices getTime localeCompare [] = []
   \<and> byLatestPerCurrency scenario_time
       [\<lparr>currency = ''USDC'', date = ''2024-01-01'', price = Fin 1\<rparr>,
        \<lparr>currency = ''BTC'', date = ''2024-01-02'', price = PosInf\<rparr>] =
       [\<lparr>symbol = ''USDC'', priceUSD = Fin 1, updatedAt = ''2024-01-01''\<rparr>]
   \<and> getLatestPrices scenario_time code_unit_compare
       [\<lparr>currency = ''USDC'', date = ''2024-01-01'', price = Fin 1\<rparr>,
        \<lparr>currency = ''BTC'', date = ''2024-01-02'', price = PosInf\<rparr>] =
       [\<lparr>currency = ''BTC'', date = ''2024-01-02'', price = PosInf\<rparr>,
        \<lparr>currency = ''USDC'', date = ''2024-01-01'', price = Fin 1\<rparr>]"
  by (simp add: getLatestPrices_def byLatestPerCurrency_def keep_latest_def js_sort_def
      toTokenMeta_def)

text \<open>
  Claim C8: for every history and every new conversion, the list that \<open>saveToHistory\<close>
  produces (and writes to the session storage) has at most 10 entries, and its first
  element is the conversion just saved, followed by the older entries in their order.
\<close>

theorem saveToHistory_capped_newest_first:
  "length (history (saveToHistory conversion s)) \<le> 10
   \<and> history (saveToHistory conversion s) = conversion # take 9 (history s)
   \<and> hd (history (saveToHistory conversion s)) = conversion
   \<and> stored (saveToHistory conversion s) = Some (history (saveToHistory conversion s))"
  by (simp add: saveToHistory_def Let_def take_Cons')

text \<open>
  Claim C10: first wins on a tie. When the observations of a currency are two with equal
  timestamps (or two dates that both fail to parse), both reductions keep the one that
  comes first in the input. And with any number of observations of the currency, all dated
  readably, the one kept is at a position \<open>k\<close> such that no observation is later than it and
  it is strictly later than every observation before it: an observation that ties with an
  earlier one never replaces it.
\<close>

theorem tie_first_wins:
  "(filter (\<lambda>r. currency r = c) rows = [r1, r2] \<and> getTime (date r1) = getTime (date r2) \<longrightarrow>
      filter (\<lambda>q. symbol q = c) (byLatestPerCurrency getTime rows) =
        (if isFinite (price r1) \<and> js_gt (price r1) (Fin 0) then [toTokenMeta r1] else [])
      \<and> filter (\<lambda>t. currency t = c) (getLatestPrices getTime localeCompare rows) =
        (if js_gt (price r1) (Fin 0) then [r1] else []))
   \<and> ((\<forall>r \<in> set rows. currency r = c \<longrightarrow> getTime (date r) \<noteq> None)
      \<and> filter (\<lambda>r. currency r = c) rows \<noteq> [] \<longrightarrow>
      (let observations = filter (\<lambda>r. currency r = c) rows
       in \<exists>k < length observations.
            filter (\<lambda>q. symbol q = c) (byLatestPerCurrency getTime rows) =
              (if isFinite (price (observations ! k)) \<and> js_gt (price (observations ! k)) (Fin 0)
               then [toTokenMeta (observations ! k)] else [])
            \<and> filter (\<lambda>t. currency t = c) (getLatestPrices getTime localeCompare rows) =
              (if js_gt (price (observations ! k)) (Fin 0) then [observations ! k] else [])
            \<and> (\<forall>j < length observations.
                  \<not> later getTime (date (observations ! j)) (date (observations ! k)))
            \<and> (\<forall>j < k. later getTime (date (observations ! k)) (date (observations ! j)))))"
proof (intro conjI impI)
  assume h: "filter (\<lambda>r. currency r = c) rows = [r1, r2] \<and> getTime (date r1) = getTime (date r2)"
  then have "\<not> later getTime (date r2) (date r1)"
    by (simp add: later_def split: option.splits)
  with h have s: "selected getTime c rows = [r1]"
    by (simp add: selected_def pick_def)
  show "filter (\<lambda>q. symbol q = c) (byLatestPerCurrency getTime rows) =
        (if isFinite (price r1) \<and> js_gt (price r1) (Fin 0) then [toTokenMeta r1] else [])"
    by (simp add: byLatestPerCurrency_of_currency s)
  show "filter (\<lambda>t. currency t = c) (getLatestPrices getTime localeCompare rows) =
        (if js_gt (price r1) (Fin 0) then [r1] else [])"
    by (simp add: getLatestPrices_of_currency s)
next
  let ?cs = "filter (\<lambda>r. currency r = c) rows"
  assume "(\<forall>r \<in> set rows. currency r = c \<longrightarrow> getTime (date r) \<noteq> None) \<and> ?cs \<noteq> []"
  then have "\<forall>r \<in> set rows. currency r = c \<longrightarrow> getTime (date r) \<noteq> None" and "?cs \<noteq> []"
    by blast+
  from selected_first_latest [OF this] obtain k where k: "k < length ?cs"
    and s: "selected getTime c rows = [?cs ! k]"
    and l: "\<forall>j < length ?cs. \<not> later getTime (date (?cs ! j)) (date (?cs ! k))"
    and f: "\<forall>j < k. later getTime (date (?cs ! k)) (date (?cs ! j))"
    by blast
  have "filter (\<lambda>q. symbol q = c) (byLatestPerCurrency getTime rows) =
          (if isFinite (price (?cs ! k)) \<and> js_gt (price (?cs ! k)) (Fin 0)
           then [toTokenMeta (?cs ! k)] else [])"
    by (simp add: byLatestPerCurrency_of_currency s)
  moreover have "filter (\<lambda>t. currency t = c) (getLatestPrices getTime localeCompare rows) =
          (if js_gt (price (?cs ! k)) (Fin 0) then [?cs ! k] else [])"
    by (simp add: getLatestPrices_of_currency s)
  ultimately show "let observations = ?cs
       in \<exists>k < length observations.
            filter (\<lambda>q. symbol q = c) (byLatestPerCurrency getTime rows) =
              (if isFinite (price (observations ! k)) \<and> js_gt (price (observations ! k)) (Fin 0)
               then [toTokenMeta (observations ! k)] else [])
            \<and> filter (\<lambda>t. currency t = c) (getLatestPrices getTime localeCompare rows) =
              (if js_gt (price (observations ! k)) (Fin 0) then [observations ! k] else [])
            \<and> (\<forall>j < length observations.
                  \<not> later getTime (date (observations ! j)) (date (observations ! k)))
            \<and> (\<forall>j < k. later getTime (date (observations ! k)) (date (observations ! j)))"
    unfolding Let_def using k l f by blast
qed

theorem tie_first_wins_witness:
  "filter (\<lambda>q. symbol q = ''ETH'') (byLatestPerCurrency scenario_time tie_rows) =
     [\<lparr>symbol = ''ETH'', priceUSD = Fin 3000, updatedAt = ''2024-01-02''\<rparr>]
   \<and> filter (\<lambda>t. currency t = ''ETH'') (getLatestPrices scenario_time code_unit_compare tie_rows) =
     [\<lparr>currency = ''ETH'', date = ''2024-01-02'', price = Fin 3000\<rparr>]
   \<and> (\<exists>k < length (filter (\<lambda>r. currency r = ''ETH'') three_eth_rows).
        filter (\<lambda>q. symbol q = ''ETH'') (byLatestPerCurrency scenario_time three_eth_rows) =
          [toTokenMeta (filter (\<lambda>r. currency r = ''ETH'') three_eth_rows ! k)]
        \<and> (\<forall>j < k. later scenario_time
               (date (filter (\<lambda>r. currency r = ''ETH'') three_eth_rows ! k))
               (date (filter (\<lambda>r. currency r = ''ETH'') three_eth_rows ! j))))
   \<and> byLatestPerCurrency scenario_time three_eth_rows =
     [\<lparr>symbol = ''ETH'', priceUSD = Fin 3100, updatedAt = ''2024-01-02''\<rparr>,
      \<lparr>symbol = ''USDC'', priceUSD = Fin 1, updatedAt = ''2024-01-01''\<rparr>]"
proof -
  let ?r1 = "\<lparr>currency = ''ETH'', date = ''2024-01-02'', price = Fin 3000\<rparr>"
  let ?r2 = "\<lparr>currency = ''ETH'', date = ''2024-01-02'', price = Fin 3100\<rparr>"
  have two: "filter (\<lambda>r. currency r = ''ETH'') tie_rows = [?r1, ?r2]
      \<and> scenario_time (date ?r1) = scenario_time (date ?r2)"
    by (simp add: tie_rows_def)
  have gen: "(\<forall>r \<in> set three_eth_rows. currency r = ''ETH'' \<longrightarrow> scenario_time (date r) \<noteq> None)
      \<and> filter (\<lambda>r. currency r = ''ETH'') three_eth_rows \<noteq> []"
    by (simp add: three_eth_rows_def scenario_time_def)
  note a = tie_first_wins [of "''ETH''" tie_rows ?r1 ?r2 scenario_time code_unit_compare,
      THEN conjunct1, THEN mp, OF two]
  note g = tie_first_wins [of "''ETH''" three_eth_rows _ _ scenario_time code_unit_compare,
      THEN conjunct2, THEN mp, OF gen, unfolded Let_def]
  from g obtain k where k: "k < length (filter (\<lambda>r. currency r = ''ETH'') three_eth_rows)"
    and o: "filter (\<lambda>q. symbol q = ''ETH'') (byLatestPerCurrency scenario_time three_eth_rows) =
          (if isFinite (price (filter (\<lambda>r. currency r = ''ETH'') three_eth_rows ! k))
              \<and> js_gt (price (filter (\<lambda>r. currency r = ''ETH'') three_eth_rows ! k)) (Fin 0)
           then [toTokenMeta (filter (\<lambda>r. currency r = ''ETH'') three_eth_rows ! k)] else [])"
    and f: "\<forall>j < k. later scenario_time
               (date (filter (\<lambda>r. currency r = ''ETH'') three_eth_rows ! k))
               (date (filter (\<lambda>r. currency r = ''ETH'') three_eth_rows ! j))"
    by blast
  from o have "filter (\<lambda>q. symbol q = ''ETH'') (byLatestPerCurrency scenario_time three_eth_rows) =
          [toTokenMeta (filter (\<lambda>r. currency r = ''ETH'') three_eth_rows ! k)]"
    by (simp add: three_eth_rows_byLatest split: if_splits)
  with k f have "\<exists>k < length (filter (\<lambda>r. currency r = ''ETH'') three_eth_rows).
        filter (\<lambda>q. symbol q = ''ETH'') (byLatestPerCurrency scenario_time three_eth_rows) =
          [toTokenMeta (filter (\<lambda>r. currency r = ''ETH'') three_eth_rows ! k)]
        \<and> (\<forall>j < k. later scenario_time
               (date (filter (\<lambda>r. currency r = ''ETH'') three_eth_rows ! k))
               (date (filter (\<lambda>r. currency r = ''ETH'') three_eth_rows ! j)))"
    by blast
  with a three_eth_rows_byLatest show ?thesis
    by (simp add: toTokenMeta_def)
qed


section \<open>Claims about the conversion arithmetic\<close>

lemma convertCurrency_converts:
  assumes "truthy (parseFloat (amount_text s))"
    and "fromCurrency s \<noteq> []" and "toCurrency s \<noteq> []"
    and "find (\<lambda>t. currency t = fromCurrency s) (tokens s) = Some from_token"
    and "find (\<lambda>t. currency t = toCurrency s) (tokens s) = Some to_token"
  shows "result_shown (convertCurrency parseFloat now s) =
           Some (js_mul (parseFloat (amount_text s)) (js_div (price from_token) (price to_token)))"
    and "hd (history (convertCurrency parseFloat now s)) =
           \<lparr>from_currency = fromCurrency s,
            to_currency = toCurrency s,
            amount = parseFloat (amount_text s),
            result = js_mul (parseFloat (amount_text s))
                       (js_div (price from_token) (price to_token)),
            rate = js_div (price from_token) (price to_token),
            timestamp = now\<rparr>"
  using assms by (simp_all add: convertCurrency_def saveToHistory_def Let_def)

lemma scenario_fromToken:
  "fromToken scenario_tokens ''ETH'' =
     Some \<lparr>symbol = ''ETH'', priceUSD = Fin 3100, updatedAt = ''2024-01-02''\<rparr>"
  by (simp add: fromToken_def scenario_tokens_def)

lemma scenario_toToken:
  "toToken scenario_tokens ''USDC'' =
     Some \<lparr>symbol = ''USDC'', priceUSD = Fin 1, updatedAt = ''2024-01-01''\<rparr>"
  by (simp add: toToken_def scenario_tokens_def)

lemma scenario_rate:
  "swap_rate (fromToken scenario_tokens ''ETH'') (toToken scenario_tokens ''USDC'') = Fin 3100"
  by (simp add: scenario_fromToken scenario_toToken swap_rate_def js_div_def double_eval)

lemma scenario_amountOut: "amountOut (amountInNum (Fin 2)) (Fin 3100) = Fin 6200"
  by (simp add: amountOut_def amountInNum_def truthy_def js_mul_def double_eval)

lemma scenario_fee: "platformFee (Fin 6200) (Fin 20) = Fin (6980579422424269 / 562949953421312)"
  by (simp add: platformFee_def js_mul_def js_div_def double_eval)

lemma scenario_minReceived:
  "minReceived (Fin 6200) (Fin (1 / 2)) (Fin (6980579422424269 / 562949953421312)) =
     Fin (3384626643782861 / 549755813888)"
  by (simp add: minReceived_def js_mul_def js_div_def js_sub_def js_add_def double_eval)

lemma literal_12_4: "literal (124 / 10) = Fin (6980579422424269 / 562949953421312)"
  by (simp add: literal_def double_eval)

lemma literal_6156_6: "literal (61566 / 10) = Fin (3384626643782861 / 549755813888)"
  by (simp add: literal_def double_eval)

lemma literal_6157_6: "literal (61576 / 10) = Fin (3385176399596749 / 549755813888)"
  by (simp add: literal_def double_eval)

lemma scenario_find_from:
  "find (\<lambda>t. currency t = fromCurrency scenario_converter) (tokens scenario_converter) =
     Some \<lparr>currency = ''ETH'', date = ''2024-01-02'', price = Fin 3100\<rparr>"
  by (simp add: scenario_converter_def)

lemma scenario_find_to:
  "find (\<lambda>t. currency t = toCurrency scenario_converter) (tokens scenario_converter) =
     Some \<lparr>currency = ''USDC'', date = ''2024-01-01'', price = Fin 1\<rparr>"
  by (simp add: scenario_converter_def)

lemma scenario_amount: "scenario_parseFloat (amount_text scenario_converter) = Fin 2"
  by (simp add: scenario_converter_def scenario_parseFloat_def)

text \<open>
  Claim C1: with both quotes found, the swap form computes, in this order and each in
  double arithmetic, \<open>rate = from.priceUSD / to.priceUSD\<close>, \<open>amountOut = amountIn * rate\<close>,
  \<open>feeAmount = amountOut * (feeBps / 10000)\<close> and
  \<open>minReceived = amountOut * (1 - slippagePct / 100) - feeAmount\<close>, for every amount, fee
  and slippage (the amount being the number the form reads, \<open>0\<close> when the text gives NaN);
  and the simple converter, when it converts, shows and records \<open>amount * rate\<close> with the
  same \<open>rate\<close>.
\<close>

theorem conversion_formulas:
  "(fromToken toks fromSymbol = Some fromQuote \<and> toToken toks toSymbol = Some toQuote \<longrightarrow>
      (let rate_now = swap_rate (fromToken toks fromSymbol) (toToken toks toSymbol);
           amount_out = amountOut (amountInNum amountIn) rate_now;
           fee = platformFee amount_out feeBps;
           min_received = minReceived amount_out slippagePct fee
       in rate_now = js_div (priceUSD fromQuote) (priceUSD toQuote)
          \<and> amount_out = js_mul (amountInNum amountIn) rate_now
          \<and> fee = js_mul amount_out (js_div feeBps (Fin 10000))
          \<and> min_received =
              js_sub (js_mul amount_out (js_sub (Fin 1) (js_div slippagePct (Fin 100)))) fee))
   \<and> (truthy (parseFloat (amount_text s)) \<and> fromCurrency s \<noteq> [] \<and> toCurrency s \<noteq> []
        \<and> find (\<lambda>t. currency t = fromCurrency s) (tokens s) = Some from_token
        \<and> find (\<lambda>t. currency t = toCurrency s) (tokens s) = Some to_token \<longrightarrow>
      result_shown (convertCurrency parseFloat now s) =
        Some (js_mul (parseFloat (amount_text s)) (js_div (price from_token) (price to_token)))
      \<and> rate (hd (history (convertCurrency parseFloat now s))) =
        js_div (price from_token) (price to_token)
      \<and> result (hd (history (convertCurrency parseFloat now s))) =
        js_mul (parseFloat (amount_text s)) (js_div (price from_token) (price to_token)))"
proof (intro conjI impI)
  assume "fromToken toks fromSymbol = Some fromQuote \<and> toToken toks toSymbol = Some toQuote"
  then show "let rate_now = swap_rate (fromToken toks fromSymbol) (toToken toks toSymbol);
           amount_out = amountOut (amountInNum amountIn) rate_now;
           fee = platformFee amount_out feeBps;
           min_received = minReceived amount_out slippagePct fee
       in rate_now = js_div (priceUSD fromQuote) (priceUSD toQuote)
          \<and> amount_out = js_mul (amountInNum amountIn) rate_now
          \<and> fee = js_mul amount_out (js_div feeBps (Fin 10000))
          \<and> min_received =
              js_sub (js_mul amount_out (js_sub (Fin 1) (js_div slippagePct (Fin 100)))) fee"
    by (simp add: Let_def swap_rate_def amountOut_def platformFee_def minReceived_def)
next
  assume a: "truthy (parseFloat (amount_text s)) \<and> fromCurrency s \<noteq> [] \<and> toCurrency s \<noteq> []
        \<and> find (\<lambda>t. currency t = fromCurrency s) (tokens s) = Some from_token
        \<and> find (\<lambda>t. currency t = toCurrency s) (tokens s) = Some to_token"
  then have c: "truthy (parseFloat (amount_text s))" "fromCurrency s \<noteq> []" "toCurrency s \<noteq> []"
    "find (\<lambda>t. currency t = fromCurrency s) (tokens s) = Some from_token"
    "find (\<lambda>t. currency t = toCurrency s) (tokens s) = Some to_token"
    by simp_all
  show "result_shown (convertCurrency parseFloat now s) =
        Some (js_mul (parseFloat (amount_text s)) (js_div (price from_token) (price to_token)))"
    using c by (simp add: convertCurrency_converts(1))
  show "rate (hd (history (convertCurrency parseFloat now s))) =
        js_div (price from_token) (price to_token)"
    using c by (simp add: convertCurrency_converts(2))
  show "result (hd (history (convertCurrency parseFloat now s))) =
        js_mul (parseFloat (amount_text s)) (js_div (price from_token) (price to_token))"
    using c by (simp add: convertCurrency_converts(2))
qed

theorem conversion_formulas_witness:
  "swap_rate (fromToken scenario_tokens ''ETH'') (toToken scenario_tokens ''USDC'') =
     js_div (Fin 3100) (Fin 1)
   \<and> amountOut (amountInNum (Fin 2))
       (swap_rate (fromToken scenario_tokens ''ETH'') (toToken scenario_tokens ''USDC'')) =
     Fin 6200
   \<and> result_shown (convertCurrency scenario_parseFloat ''now'' scenario_converter) =
     Some (js_mul (Fin 2) (js_div (Fin 3100) (Fin 1)))
   \<and> rate (hd (history (convertCurrency scenario_parseFloat ''now'' scenario_converter))) =
     js_div (Fin 3100) (Fin 1)
   \<and> js_mul (Fin 2) (js_div (Fin 3100) (Fin 1)) = Fin 6200"
proof -
  note t = conversion_formulas [of scenario_tokens "''ETH''" _ "''USDC''" _ "Fin 2" "Fin 20"
      "Fin (1 / 2)" scenario_parseFloat scenario_converter _ _ "''now''"]
  have h: "truthy (scenario_parseFloat (amount_text scenario_converter))"
    "fromCurrency scenario_converter \<noteq> []" "toCurrency scenario_converter \<noteq> []"
    by (simp_all add: scenario_amount truthy_def, simp_all add: scenario_converter_def)
  from t scenario_fromToken scenario_toToken
  have "swap_rate (fromToken scenario_tokens ''ETH'') (toToken scenario_tokens ''USDC'') =
     js_div (Fin 3100) (Fin 1)"
    by (simp add: Let_def)
  moreover from t h scenario_find_from scenario_find_to
  have "result_shown (convertCurrency scenario_parseFloat ''now'' scenario_converter) =
     Some (js_mul (Fin 2) (js_div (Fin 3100) (Fin 1)))
   \<and> rate (hd (history (convertCurrency scenario_parseFloat ''now'' scenario_converter))) =
     js_div (Fin 3100) (Fin 1)"
    by (simp add: scenario_amount)
  moreover have "js_mul (Fin 2) (js_div (Fin 3100) (Fin 1)) = Fin 6200"
    by (simp add: js_mul_def js_div_def double_eval)
  ultimately show ?thesis
    by (simp add: scenario_rate scenario_amountOut)
qed

text \<open>
  Claim C5: for ETH at 3100, USDC at 1, amount 2, \<open>feeBps = 20\<close> and \<open>slippagePct = 0.5\<close> the
  fee is the double \<open>12.4\<close>, and the minimum received is the double \<open>6156.6\<close>
  (\<open>6200 * 0.995 = 6169\<close>, less \<open>12.4\<close>), not \<open>6157.6\<close>.
\<close>

theorem scenario3_min_received_is_6156_6:
  "platformFee
     (amountOut (amountInNum (Fin 2))
        (swap_rate (fromToken scenario_tokens ''ETH'') (toToken scenario_tokens ''USDC'')))
     (Fin 20) = literal (124 / 10)
   \<and> minReceived
     (amountOut (amountInNum (Fin 2))
        (swap_rate (fromToken scenario_tokens ''ETH'') (toToken scenario_tokens ''USDC'')))
     (Fin (1 / 2))
     (platformFee
        (amountOut (amountInNum (Fin 2))
           (swap_rate (fromToken scenario_tokens ''ETH'') (toToken scenario_tokens ''USDC'')))
        (Fin 20)) = literal (61566 / 10)"
  by (simp only: scenario_rate scenario_amountOut scenario_fee scenario_minReceived
      literal_12_4 literal_6156_6 simp_thms)

theorem scenario3_min_received_is_not_6157_6:
  "minReceived
     (amountOut (amountInNum (Fin 2))
        (swap_rate (fromToken scenario_tokens ''ETH'') (toToken scenario_tokens ''USDC'')))
     (Fin (1 / 2))
     (platformFee
        (amountOut (amountInNum (Fin 2))
           (swap_rate (fromToken scenario_tokens ''ETH'') (toToken scenario_tokens ''USDC'')))
        (Fin 20)) \<noteq> literal (61576 / 10)"
  by (simp only: scenario_rate scenario_amountOut scenario_fee scenario_minReceived
      literal_6157_6) simp

lemma swap_identity:
  assumes "0 < a" and "is_double (Fin a)"
  shows "amountOut (amountInNum (Fin a)) (Fin 1) = Fin a"
    and "platformFee (Fin a) (Fin 0) = Fin 0"
    and "minReceived (Fin a) (Fin 0) (Fin 0) = Fin a"
proof -
  have z: "to_double False 0 = Fin 0" by (simp add: to_double_def)
  from assms(2) have d: "to_double False a = Fin a" by (simp add: is_double_def)
  from assms show "amountOut (amountInNum (Fin a)) (Fin 1) = Fin a"
    by (simp add: amountOut_def amountInNum_def truthy_def js_mul_one)
  from assms(1) show "platformFee (Fin a) (Fin 0) = Fin 0"
    by (simp add: platformFee_def js_mul_def js_div_def z)
  have "js_sub (Fin 1) (js_div (Fin 0) (Fin 100)) = Fin 1"
    by (simp add: js_sub_def js_div_def js_add_def z to_double_one)
  with assms show "minReceived (Fin a) (Fin 0) (Fin 0) = Fin a"
    by (simp add: minReceived_def js_mul_one js_sub_def js_add_def d)
qed

text \<open>
  Claim C6: with the same quote on both sides, its price finite and above zero, a finite
  amount above zero, no fee and no slippage, the rate is exactly 1 and the amount out is
  the amount in (and so is the minimum received); the simple converter shows and records
  the same.
\<close>

theorem same_quote_identity:
  "(fromToken toks fromSymbol = Some q \<and> toToken toks toSymbol = Some q
      \<and> priceUSD q = Fin p \<and> 0 < p \<and> amountIn = Fin a \<and> 0 < a \<and> is_double amountIn \<longrightarrow>
      swap_rate (fromToken toks fromSymbol) (toToken toks toSymbol) = Fin 1
      \<and> amountOut (amountInNum amountIn)
          (swap_rate (fromToken toks fromSymbol) (toToken toks toSymbol)) = amountIn
      \<and> platformFee amountIn (Fin 0) = Fin 0
      \<and> minReceived amountIn (Fin 0) (Fin 0) = amountIn)
   \<and> (find (\<lambda>t. currency t = fromCurrency s) (tokens s) = Some tok
      \<and> find (\<lambda>t. currency t = toCurrency s) (tokens s) = Some tok
      \<and> fromCurrency s \<noteq> [] \<and> toCurrency s \<noteq> []
      \<and> price tok = Fin p \<and> 0 < p
      \<and> parseFloat (amount_text s) = Fin a \<and> 0 < a \<and> is_double (Fin a) \<longrightarrow>
      rate (hd (history (convertCurrency parseFloat now s))) = Fin 1
      \<and> result (hd (history (convertCurrency parseFloat now s))) = Fin a
      \<and> result_shown (convertCurrency parseFloat now s) = Some (Fin a))"
proof (intro conjI impI)
  assume h: "fromToken toks fromSymbol = Some q \<and> toToken toks toSymbol = Some q
      \<and> priceUSD q = Fin p \<and> 0 < p \<and> amountIn = Fin a \<and> 0 < a \<and> is_double amountIn"
  then show r: "swap_rate (fromToken toks fromSymbol) (toToken toks toSymbol) = Fin 1"
    by (simp add: swap_rate_def js_div_self)
  from h have a: "0 < a" "is_double (Fin a)" and i: "amountIn = Fin a"
    by auto
  show "amountOut (amountInNum amountIn)
          (swap_rate (fromToken toks fromSymbol) (toToken toks toSymbol)) = amountIn"
    unfolding r i by (rule swap_identity(1) [OF a])
  show "platformFee amountIn (Fin 0) = Fin 0"
    unfolding i by (rule swap_identity(2) [OF a])
  show "minReceived amountIn (Fin 0) (Fin 0) = amountIn"
    unfolding i by (rule swap_identity(3) [OF a])
next
  assume h: "find (\<lambda>t. currency t = fromCurrency s) (tokens s) = Some tok
      \<and> find (\<lambda>t. currency t = toCurrency s) (tokens s) = Some tok
      \<and> fromCurrency s \<noteq> [] \<and> toCurrency s \<noteq> []
      \<and> price tok = Fin p \<and> 0 < p
      \<and> parseFloat (amount_text s) = Fin a \<and> 0 < a \<and> is_double (Fin a)"
  then have c: "find (\<lambda>t. currency t = fromCurrency s) (tokens s) = Some tok"
    "find (\<lambda>t. currency t = toCurrency s) (tokens s) = Some tok"
    "fromCurrency s \<noteq> []" "toCurrency s \<noteq> []"
    and p: "price tok = Fin p" "0 < p"
    and a: "parseFloat (amount_text s) = Fin a" "0 < a" "is_double (Fin a)"
    by auto
  from a have t: "truthy (parseFloat (amount_text s))"
    by (simp add: truthy_def)
  have v: "js_div (price tok) (price tok) = Fin 1"
    "js_mul (parseFloat (amount_text s)) (Fin 1) = Fin a"
    unfolding p(1) a(1) by (rule js_div_self [OF p(2)], rule js_mul_one [OF a(2,3)])
  note r = convertCurrency_converts [of parseFloat s tok tok now, OF t c(3,4,1,2), unfolded v]
  show "rate (hd (history (convertCurrency parseFloat now s))) = Fin 1"
    by (simp add: r(2))
  show "result (hd (history (convertCurrency parseFloat now s))) = Fin a"
    by (simp add: r(2))
  show "result_shown (convertCurrency parseFloat now s) = Some (Fin a)"
    by (rule r(1))
qed

theorem same_quote_identity_witness:
  "swap_rate (fromToken scenario_tokens ''ETH'') (toToken scenario_tokens ''ETH'') = Fin 1
   \<and> amountOut (amountInNum (Fin 2))
       (swap_rate (fromToken scenario_tokens ''ETH'') (toToken scenario_tokens ''ETH'')) = Fin 2
   \<and> minReceived (Fin 2) (Fin 0) (Fin 0) = Fin 2
   \<and> result_shown
       (convertCurrency scenario_parseFloat ''now'' (scenario_converter\<lparr>toCurrency := ''ETH''\<rparr>)) =
     Some (Fin 2)
   \<and> is_double (Fin 2)"
proof -
  let ?q = "\<lparr>symbol = ''ETH'', priceUSD = Fin 3100, updatedAt = ''2024-01-02''\<rparr>"
  let ?tok = "\<lparr>currency = ''ETH'', date = ''2024-01-02'', price = Fin 3100\<rparr>"
  let ?s = "scenario_converter\<lparr>toCurrency := ''ETH''\<rparr>"
  note t = same_quote_identity [of scenario_tokens "''ETH''" ?q "''ETH''" 3100 "Fin 2" 2
      ?s ?tok scenario_parseFloat "''now''"]
  have d: "is_double (Fin 2)"
    by (simp add: is_double_def double_eval)
  have q: "fromToken scenario_tokens ''ETH'' = Some ?q" "toToken scenario_tokens ''ETH'' = Some ?q"
    by (simp_all add: fromToken_def toToken_def scenario_tokens_def)
  have c: "find (\<lambda>t. currency t = fromCurrency ?s) (tokens ?s) = Some ?tok"
    "find (\<lambda>t. currency t = toCurrency ?s) (tokens ?s) = Some ?tok"
    "fromCurrency ?s \<noteq> []" "toCurrency ?s \<noteq> []"
    "scenario_parseFloat (amount_text ?s) = Fin 2"
    by (simp_all add: scenario_converter_def scenario_parseFloat_def)
  have "fromToken scenario_tokens ''ETH'' = Some ?q \<and> toToken scenario_tokens ''ETH'' = Some ?q
      \<and> priceUSD ?q = Fin 3100 \<and> (0::rat) < 3100 \<and> Fin 2 = Fin 2 \<and> (0::rat) < 2
      \<and> is_double (Fin 2)"
    using d q by simp
  with t have "swap_rate (fromToken scenario_tokens ''ETH'') (toToken scenario_tokens ''ETH'') = Fin 1
   \<and> amountOut (amountInNum (Fin 2))
       (swap_rate (fromToken scenario_tokens ''ETH'') (toToken scenario_tokens ''ETH'')) = Fin 2
   \<and> platformFee (Fin 2) (Fin 0) = Fin 0
   \<and> minReceived (Fin 2) (Fin 0) (Fin 0) = Fin 2"
    by blast
  moreover have "find (\<lambda>t. currency t = fromCurrency ?s) (tokens ?s) = Some ?tok
      \<and> find (\<lambda>t. currency t = toCurrency ?s) (tokens ?s) = Some ?tok
      \<and> fromCurrency ?s \<noteq> [] \<and> toCurrency ?s \<noteq> []
      \<and> price ?tok = Fin 3100 \<and> (0::rat) < 3100
      \<and> scenario_parseFloat (amount_text ?s) = Fin 2 \<and> (0::rat) < 2 \<and> is_double (Fin 2)"
    using d c by simp
  with t have "result_shown (convertCurrency scenario_parseFloat ''now'' ?s) = Some (Fin 2)"
    by blast
  ultimately show ?thesis using d by blast
qed

section \<open>Claims about the three sums\<close>












end
